theory Spec2Isabelle
  imports Main
begin

section \<open>The license service of Redpanda Connect\<close>

text \<open>
  A shallow embedding of the license service (package \<open>license\<close>): \<open>readLicense\<close>,
  \<open>validateLicense\<close>, \<open>readAndValidateLicense\<close> and \<open>RegisterService\<close>.
  Byte slices and Go strings are lists of 8-bit characters; a nil slice and an empty one
  both have length 0 and are the empty list. Go's \<open>(value, error)\<close> returns are pairs
  whose second component is \<open>None\<close> for a nil error. A run-time panic is an outcome of its
  own, since it is not an error value and unwinds through every caller.
\<close>

type_synonym bytes = string

subsection \<open>Data\<close>

text \<open>
  Modelled from the spec: the struct \<open>RedpandaLicense\<close> is declared in a file that is not
  part of the sources at hand; its four fields are those of the Entitlement Record
  (version, organization, type, expiry in seconds since the epoch). Its zero value is
  what Go writes \<open>RedpandaLicense{}\<close>.
\<close>

record RedpandaLicense =
  Version :: int
  Organization :: string
  Type :: int
  Expiry :: int

definition zero_license :: RedpandaLicense where
  "zero_license = \<lparr>Version = 0, Organization = [], Type = 0, Expiry = 0\<rparr>"

record Config =
  License :: string
  LicenseFilepath :: string
  customPublicKeyPem :: bytes
  customDefaultLicenseFilepath :: string

text \<open>What \<open>os.ReadFile\<close> can fail with; \<open>os.IsNotExist\<close> tells the first from the rest.\<close>

datatype os_error = ErrNotExist | ErrPermission | ErrOther

definition IsNotExist :: "os_error \<Rightarrow> bool" where
  "IsNotExist e = (e = ErrNotExist)"

text \<open>
  The errors the service builds, one constructor per message of the source;
  \<open>ValidateFailed\<close> is the wrapper \<open>"failed to validate license: %w"\<close>.
\<close>

datatype lic_error =
    ReadLicenseFileFailed os_error
  | ReadDefaultPathFailed os_error
  | ParsePublicKeyFailed
  | PublicKeyNotRSA
  | SplitFailed
  | DecodeLicenseDataFailed
  | DecodeSignatureFailed
  | VerifySignatureFailed
  | UnmarshalFailed
  | ValidateFailed lic_error
  | TrialLicense
  | LicenseExpired

text \<open>The error taxonomy of the specification, and the condition each error falls under.\<close>

datatype condition =
    SourceReadError | KeyParseError | MalformedCredential | SignatureInvalid
  | DecodeError | TrialsUnsupported | Expired

fun condition_of :: "lic_error \<Rightarrow> condition" where
  "condition_of (ReadLicenseFileFailed e) = SourceReadError"
| "condition_of (ReadDefaultPathFailed e) = SourceReadError"
| "condition_of ParsePublicKeyFailed = KeyParseError"
| "condition_of PublicKeyNotRSA = KeyParseError"
| "condition_of SplitFailed = MalformedCredential"
| "condition_of DecodeLicenseDataFailed = MalformedCredential"
| "condition_of DecodeSignatureFailed = MalformedCredential"
| "condition_of VerifySignatureFailed = SignatureInvalid"
| "condition_of UnmarshalFailed = DecodeError"
| "condition_of (ValidateFailed e) = condition_of e"
| "condition_of TrialLicense = TrialsUnsupported"
| "condition_of LicenseExpired = Expired"

datatype 'a outcome = Returns 'a | Panics

text \<open>What a call leaves behind, in order: log lines and file reads.\<close>

datatype event =
    LogDebug string
  | LogError string lic_error
  | ReadFile string

datatype pubkey = RSAPublicKey bytes | OtherPublicKey

text \<open>
  The collaborators of the service that live outside the package: the embedded key file,
  the standard library's PEM, X.509, SHA-256, RSA and JSON functions, the file system and
  the clock. \<open>pem_Decode\<close> gives the bytes of the first block, \<open>None\<close> where
  \<open>pem.Decode\<close> returns a nil block. The clock is read twice during a load, once for the
  fallback record and once by the expiry check.
\<close>

record env =
  licensePublicKeyPem :: bytes
  pem_Decode :: "bytes \<Rightarrow> bytes option"
  x509_ParsePKIXPublicKey :: "bytes \<Rightarrow> pubkey option"
  sha256_Sum256 :: "bytes \<Rightarrow> bytes"
  rsa_VerifyPKCS1v15 :: "bytes \<Rightarrow> bytes \<Rightarrow> bytes \<Rightarrow> bool"
  json_Unmarshal :: "bytes \<Rightarrow> RedpandaLicense option"
  unicode_TrimSpace :: "bytes \<Rightarrow> bytes"
  os_ReadFile :: "string \<Rightarrow> os_error + bytes"
  now_fallback :: int
  now_check :: int

record Service =
  loadedLicense :: "RedpandaLicense option"
  conf :: Config

subsection \<open>Configuration accessors\<close>

definition publicKeyPem :: "env \<Rightarrow> Config \<Rightarrow> bytes" where
  "publicKeyPem e c =
     (if length (customPublicKeyPem c) > 0 then customPublicKeyPem c
      else licensePublicKeyPem e)"

definition defaultLicenseFilepath :: "Config \<Rightarrow> string" where
  "defaultLicenseFilepath c =
     (if customDefaultLicenseFilepath c \<noteq> [] then customDefaultLicenseFilepath c
      else ''/etc/redpanda/redpanda.license'')"

subsection \<open>The library functions the verifier runs on the credential\<close>

text \<open>
  \<open>bytes.TrimSpace\<close>: the ASCII white space is cut from both ends; at the first byte
  that is not ASCII the rest is handed to the Unicode-aware trimming.
\<close>

definition asciiSpace :: "char \<Rightarrow> bool" where
  "asciiSpace c = (c \<in> {CHR 0x09, CHR 0x0A, CHR 0x0B, CHR 0x0C, CHR 0x0D, CHR 0x20})"

definition RuneSelf :: "char \<Rightarrow> bool" where
  "RuneSelf c = ((of_char c :: nat) \<ge> 128)"

definition TrimSpace :: "(bytes \<Rightarrow> bytes) \<Rightarrow> bytes \<Rightarrow> bytes" where
  "TrimSpace utrim s =
     (let s1 = dropWhile asciiSpace s in
      if s1 \<noteq> [] \<and> RuneSelf (hd s1) then utrim s1
      else let s2 = rev (dropWhile asciiSpace (rev s1)) in
        if s2 \<noteq> [] \<and> RuneSelf (last s2) then utrim s2 else s2)"

text \<open>\<open>bytes.Split\<close> on the one-byte separator: every occurrence cuts.\<close>

fun Split :: "char \<Rightarrow> bytes \<Rightarrow> bytes list" where
  "Split sep [] = [[]]"
| "Split sep (c # cs) =
     (if c = sep then [] # Split sep cs
      else (case Split sep cs of [] \<Rightarrow> [[c]] | p # ps \<Rightarrow> (c # p) # ps))"

text \<open>
  \<open>encoding/base64\<close>: an encoding is its alphabet of 64 characters, padded with \<open>=\<close>.
  The decoder reads quanta of four characters, skipping carriage returns and line feeds;
  \<open>dbuf\<close> holds the sextets of the quantum read so far. Input that ends inside a
  quantum, a character outside the alphabet, padding after fewer than two characters and
  anything but line breaks after the padding are corrupt input. The standard encoding is
  not strict: the unused bits of the last sextet are not checked.
\<close>

definition encodeStd :: string where
  "encodeStd = ''ABCDEFGHIJKLMNOPQRSTUVWXYZabcdefghijklmnopqrstuvwxyz0123456789+/''"

definition encodeURL :: string where
  "encodeURL = ''ABCDEFGHIJKLMNOPQRSTUVWXYZabcdefghijklmnopqrstuvwxyz0123456789-_''"

fun find_index :: "char \<Rightarrow> string \<Rightarrow> nat \<Rightarrow> nat option" where
  "find_index c [] i = None"
| "find_index c (x # xs) i = (if x = c then Some i else find_index c xs (Suc i))"

definition decodeMap :: "string \<Rightarrow> char \<Rightarrow> nat option" where
  "decodeMap alphabet c = find_index c alphabet 0"

definition is_newline :: "char \<Rightarrow> bool" where
  "is_newline c = (c = CHR 0x0A \<or> c = CHR 0x0D)"

definition quantum_bytes :: "nat list \<Rightarrow> bytes" where
  "quantum_bytes dbuf =
     (let d = dbuf @ replicate (4 - length dbuf) 0;
          val = d ! 0 * 262144 + d ! 1 * 4096 + d ! 2 * 64 + d ! 3
      in take (length dbuf - 1)
           [char_of (val div 65536), char_of (val div 256), char_of val])"

fun decodeQuantum :: "string \<Rightarrow> nat list \<Rightarrow> bytes \<Rightarrow> bytes option" where
  "decodeQuantum al dbuf [] = (if dbuf = [] then Some [] else None)"
| "decodeQuantum al dbuf (c # cs) =
     (case decodeMap al c of
        Some v \<Rightarrow>
          (if length dbuf = 3
           then (case decodeQuantum al [] cs of
                   None \<Rightarrow> None
                 | Some r \<Rightarrow> Some (quantum_bytes (dbuf @ [v]) @ r))
           else decodeQuantum al (dbuf @ [v]) cs)
      | None \<Rightarrow>
          (if is_newline c then decodeQuantum al dbuf cs
           else if c \<noteq> CHR ''='' then None
           else if length dbuf < 2 then None
           else if length dbuf = 2 then
             (case dropWhile is_newline cs of
                [] \<Rightarrow> None
              | p # rest \<Rightarrow>
                  (if p \<noteq> CHR ''='' then None
                   else if dropWhile is_newline rest \<noteq> [] then None
                   else Some (quantum_bytes dbuf)))
           else if dropWhile is_newline cs \<noteq> [] then None
           else Some (quantum_bytes dbuf)))"

definition DecodeString :: "string \<Rightarrow> bytes \<Rightarrow> bytes option" where
  "DecodeString al s = decodeQuantum al [] s"

text \<open>
  The encoder of the same package. The service never encodes; the encoder says what a
  segment encoded in an alphabet is: three bytes give four characters, and a last group
  of one or two bytes is padded.
\<close>

fun EncodeToString :: "string \<Rightarrow> bytes \<Rightarrow> string" where
  "EncodeToString al [] = []"
| "EncodeToString al [a] =
     (let val = of_char a * 65536 :: nat
      in [al ! (val div 262144 mod 64), al ! (val div 4096 mod 64), CHR ''='', CHR ''=''])"
| "EncodeToString al [a, b] =
     (let val = of_char a * 65536 + of_char b * 256 :: nat
      in [al ! (val div 262144 mod 64), al ! (val div 4096 mod 64),
          al ! (val div 64 mod 64), CHR ''=''])"
| "EncodeToString al (a # b # c # rest) =
     (let val = of_char a * 65536 + of_char b * 256 + of_char c :: nat
      in [al ! (val div 262144 mod 64), al ! (val div 4096 mod 64),
          al ! (val div 64 mod 64), al ! (val mod 64)]) @ EncodeToString al rest"

subsection \<open>The service\<close>

text \<open>
  Modelled from the spec: \<open>CheckExpiry\<close> is a method of \<open>RedpandaLicense\<close>, declared
  outside the sources at hand; it fails with the Expired condition when
  \<open>expiry \<le> now\<close>.
\<close>

definition CheckExpiry :: "env \<Rightarrow> RedpandaLicense \<Rightarrow> lic_error option" where
  "CheckExpiry e l = (if Expiry l \<le> now_check e then Some LicenseExpired else None)"

definition readLicense :: "env \<Rightarrow> Config \<Rightarrow> event list \<times> bytes \<times> lic_error option" where
  "readLicense e c =
     (if License c \<noteq> [] then
        ([LogDebug ''Loading explicitly defined Redpanda Enterprise license''],
         License c, None)
      else if LicenseFilepath c \<noteq> [] then
        (case os_ReadFile e (LicenseFilepath c) of
           Inl err \<Rightarrow>
             ([LogDebug ''Loading Redpanda Enterprise license from explicit file path'',
               ReadFile (LicenseFilepath c)],
              [], Some (ReadLicenseFileFailed err))
         | Inr contents \<Rightarrow>
             ([LogDebug ''Loading Redpanda Enterprise license from explicit file path'',
               ReadFile (LicenseFilepath c)],
              contents, None))
      else
        (case os_ReadFile e (defaultLicenseFilepath c) of
           Inl err \<Rightarrow>
             (if \<not> IsNotExist err
              then ([ReadFile (defaultLicenseFilepath c)], [], Some (ReadDefaultPathFailed err))
              else ([ReadFile (defaultLicenseFilepath c)], [], None))
         | Inr contents \<Rightarrow>
             ([ReadFile (defaultLicenseFilepath c),
               LogDebug ''Loaded Redpanda Enterprise license from default file path''],
              contents, None)))"

definition validateLicense ::
  "env \<Rightarrow> Config \<Rightarrow> bytes \<Rightarrow> (RedpandaLicense \<times> lic_error option) outcome" where
  "validateLicense e c license =
     (case pem_Decode e (publicKeyPem e c) of
        None \<Rightarrow> Panics
      | Some blockBytes \<Rightarrow>
          (case x509_ParsePKIXPublicKey e blockBytes of
             None \<Rightarrow> Returns (zero_license, Some ParsePublicKeyFailed)
           | Some OtherPublicKey \<Rightarrow> Returns (zero_license, Some PublicKeyNotRSA)
           | Some (RSAPublicKey publicKeyRSA) \<Rightarrow>
               (let splitParts = Split (CHR ''.'') (TrimSpace (unicode_TrimSpace e) license) in
                if length splitParts \<noteq> 2 then Returns (zero_license, Some SplitFailed)
                else
                  (let licenseDataEncoded = splitParts ! 0;
                       signatureEncoded = splitParts ! 1 in
                   case DecodeString encodeStd licenseDataEncoded of
                     None \<Rightarrow> Returns (zero_license, Some DecodeLicenseDataFailed)
                   | Some licenseData \<Rightarrow>
                       (case DecodeString encodeStd signatureEncoded of
                          None \<Rightarrow> Returns (zero_license, Some DecodeSignatureFailed)
                        | Some signature \<Rightarrow>
                            (if \<not> rsa_VerifyPKCS1v15 e publicKeyRSA
                                    (sha256_Sum256 e licenseDataEncoded) signature
                             then Returns (zero_license, Some VerifySignatureFailed)
                             else (case json_Unmarshal e licenseData of
                                     None \<Rightarrow> Returns (zero_license, Some UnmarshalFailed)
                                   | Some rpLicense \<Rightarrow> Returns (rpLicense, None))))))))"

text \<open>
  The checks of \<open>validateLicense\<close> up to and including the RSA verification: the key
  parses to an RSA key, the trimmed input splits into exactly two segments, both decode,
  and the signature verifies against the hash of the encoded payload.
\<close>

definition verification_passes :: "env \<Rightarrow> Config \<Rightarrow> bytes \<Rightarrow> bool" where
  "verification_passes e c license =
     (case pem_Decode e (publicKeyPem e c) of
        None \<Rightarrow> False
      | Some blockBytes \<Rightarrow>
          (case x509_ParsePKIXPublicKey e blockBytes of
             Some (RSAPublicKey publicKeyRSA) \<Rightarrow>
               (case Split (CHR ''.'') (TrimSpace (unicode_TrimSpace e) license) of
                  [licenseDataEncoded, signatureEncoded] \<Rightarrow>
                    (case DecodeString encodeStd licenseDataEncoded of
                       None \<Rightarrow> False
                     | Some licenseData \<Rightarrow>
                         (case DecodeString encodeStd signatureEncoded of
                            None \<Rightarrow> False
                          | Some signature \<Rightarrow>
                              rsa_VerifyPKCS1v15 e publicKeyRSA
                                (sha256_Sum256 e licenseDataEncoded) signature))
                | _ \<Rightarrow> False)
           | _ \<Rightarrow> False))"

text \<open>The fallback record expires ten years of 365 days after the load.\<close>

definition ten_years :: int where
  "ten_years = 10 * (365 * 24 * 3600)"

definition fallback_license :: "env \<Rightarrow> RedpandaLicense" where
  "fallback_license e =
     \<lparr>Version = 0, Organization = [], Type = - 1, Expiry = now_fallback e + ten_years\<rparr>"

definition expiry_and_log ::
  "env \<Rightarrow> event list \<Rightarrow> RedpandaLicense \<Rightarrow>
     event list \<times> (RedpandaLicense \<times> lic_error option) outcome" where
  "expiry_and_log e evs license =
     (case CheckExpiry e license of
        Some err \<Rightarrow> (evs, Returns (zero_license, Some err))
      | None \<Rightarrow>
          (evs @ [LogDebug ''Successfully loaded Redpanda license''],
           Returns (license, None)))"

definition readAndValidateLicense ::
  "env \<Rightarrow> Config \<Rightarrow> event list \<times> (RedpandaLicense \<times> lic_error option) outcome" where
  "readAndValidateLicense e c =
     (case readLicense e c of
        (evs, licenseBytes, Some err) \<Rightarrow> (evs, Returns (zero_license, Some err))
      | (evs, licenseBytes, None) \<Rightarrow>
          (if length licenseBytes > 0 then
             (case validateLicense e c licenseBytes of
                Panics \<Rightarrow> (evs, Panics)
              | Returns (license, Some err) \<Rightarrow>
                  (evs, Returns (zero_license, Some (ValidateFailed err)))
              | Returns (license, None) \<Rightarrow>
                  (if Type license = 0
                   then (evs, Returns (zero_license, Some TrialLicense))
                   else expiry_and_log e evs license))
           else expiry_and_log e evs (fallback_license e)))"

definition RegisterService :: "env \<Rightarrow> Config \<Rightarrow> event list \<times> Service outcome" where
  "RegisterService e c =
     (case readAndValidateLicense e c of
        (evs, Panics) \<Rightarrow> (evs, Panics)
      | (evs, Returns (license, err)) \<Rightarrow>
          ((case err of
              None \<Rightarrow> evs
            | Some x \<Rightarrow> evs @ [LogError ''Failed to read Redpanda License'' x]),
           Returns \<lparr>loadedLicense = Some license, conf = c\<rparr>))"

subsection \<open>A test harness\<close>

text \<open>
  A configuration as the package's tests build one, with the overrides of the key and of
  the default path, over stand-ins for the collaborators: a PEM decoder that knows the
  marker \<open>PEM:\<close>, a key parser that knows one RSA key and one key of another kind, a
  signature check that accepts the signature \<open>ok\<close> under that key, a JSON decoder that
  knows three payloads, and a file system with one license file, one unreadable file and
  nothing else.
\<close>

definition test_env :: env where
  "test_env =
     \<lparr>licensePublicKeyPem = ''PEM:rsa'',
      pem_Decode = (\<lambda>b. if take 4 b = ''PEM:'' then Some (drop 4 b) else None),
      x509_ParsePKIXPublicKey =
        (\<lambda>d. if d = ''rsa'' then Some (RSAPublicKey ''k'')
             else if d = ''ec'' then Some OtherPublicKey else None),
      sha256_Sum256 = (\<lambda>b. b),
      rsa_VerifyPKCS1v15 = (\<lambda>k h s. k = ''k'' \<and> s = ''ok''),
      json_Unmarshal =
        (\<lambda>d. if d = ''trial''
               then Some \<lparr>Version = 1, Organization = ''acme'', Type = 0, Expiry = 500\<rparr>
             else if d = ''ent''
               then Some \<lparr>Version = 1, Organization = ''acme'', Type = 2, Expiry = 2000\<rparr>
             else if d = ''old''
               then Some \<lparr>Version = 1, Organization = ''acme'', Type = 2, Expiry = 1000\<rparr>
             else None),
      unicode_TrimSpace = (\<lambda>b. b),
      os_ReadFile =
        (\<lambda>p. if p = ''/etc/license'' then Inr ''ZW50.b2s=''
             else if p = ''/root/license'' then Inl ErrPermission
             else Inl ErrNotExist),
      now_fallback = 1000,
      now_check = 1000\<rparr>"

definition test_conf :: Config where
  "test_conf =
     \<lparr>License = [], LicenseFilepath = [], customPublicKeyPem = [],
      customDefaultLicenseFilepath = []\<rparr>"

section \<open>Properties\<close>

subsection \<open>The harness, evaluated\<close>

lemma test_env_simps:
  "licensePublicKeyPem test_env = ''PEM:rsa''"
  "pem_Decode test_env b = (if take 4 b = ''PEM:'' then Some (drop 4 b) else None)"
  "x509_ParsePKIXPublicKey test_env d =
     (if d = ''rsa'' then Some (RSAPublicKey ''k'')
      else if d = ''ec'' then Some OtherPublicKey else None)"
  "sha256_Sum256 test_env b = b"
  "rsa_VerifyPKCS1v15 test_env k h s = (k = ''k'' \<and> s = ''ok'')"
  "unicode_TrimSpace test_env b = b"
  "now_fallback test_env = 1000"
  "now_check test_env = 1000"
  by (simp_all add: test_env_def)

lemma test_env_files:
  "os_ReadFile test_env p =
     (if p = ''/etc/license'' then Inr ''ZW50.b2s=''
      else if p = ''/root/license'' then Inl ErrPermission
      else Inl ErrNotExist)"
  by (simp add: test_env_def)

lemma test_env_json:
  "json_Unmarshal test_env d =
        (if d = ''trial''
               then Some \<lparr>Version = 1, Organization = ''acme'', Type = 0, Expiry = 500\<rparr>
             else if d = ''ent''
               then Some \<lparr>Version = 1, Organization = ''acme'', Type = 2, Expiry = 2000\<rparr>
             else if d = ''old''
               then Some \<lparr>Version = 1, Organization = ''acme'', Type = 2, Expiry = 1000\<rparr>
             else None)"
  by (simp add: test_env_def)

lemma test_conf_simps:
  "License test_conf = []" "LicenseFilepath test_conf = []"
  "customPublicKeyPem test_conf = []" "customDefaultLicenseFilepath test_conf = []"
  by (simp_all add: test_conf_def)

lemmas base64_defs = DecodeString_def decodeMap_def encodeStd_def encodeURL_def
  is_newline_def quantum_bytes_def

lemma decode_samples:
  "DecodeString encodeStd ''ZW50'' = Some ''ent''"
  "DecodeString encodeStd ''b2xk'' = Some ''old''"
  "DecodeString encodeStd ''dHJpYWw='' = Some ''trial''"
  "DecodeString encodeStd ''b2s='' = Some ''ok''"
  "DecodeString encodeStd ''YmFk'' = Some ''bad''"
  "DecodeString encodeStd ''!'' = None"
  "DecodeString encodeStd ''-_8='' = None"
  "DecodeString encodeURL ''-_8='' = Some [CHR 0xFB, CHR 0xFF]"
  "DecodeString encodeStd ''+/8='' = Some [CHR 0xFB, CHR 0xFF]"
  by (simp_all add: base64_defs char_of_def bit_Suc_0_iff)

lemmas trim_defs = TrimSpace_def asciiSpace_def RuneSelf_def

lemma validate_samples:
  "validateLicense test_env test_conf ''ZW50.b2s='' =
     Returns (\<lparr>Version = 1, Organization = ''acme'', Type = 2, Expiry = 2000\<rparr>, None)"
  "validateLicense test_env test_conf ''ZW50.YmFk'' =
     Returns (zero_license, Some VerifySignatureFailed)"
  "validateLicense test_env test_conf ''dHJpYWw=.b2s='' =
     Returns (\<lparr>Version = 1, Organization = ''acme'', Type = 0, Expiry = 500\<rparr>, None)"
  "validateLicense test_env test_conf ''b2xk.b2s='' =
     Returns (\<lparr>Version = 1, Organization = ''acme'', Type = 2, Expiry = 1000\<rparr>, None)"
  "validateLicense test_env test_conf ''!.YmFk'' =
     Returns (zero_license, Some DecodeLicenseDataFailed)"
  "validateLicense test_env test_conf ''-_8=.b2s='' =
     Returns (zero_license, Some DecodeLicenseDataFailed)"
  by (simp_all add: validateLicense_def publicKeyPem_def test_env_simps test_env_json
      test_conf_simps trim_defs decode_samples)

lemma read_samples:
  "readLicense test_env (test_conf\<lparr>License := x # xs\<rparr>) =
     ([LogDebug ''Loading explicitly defined Redpanda Enterprise license''], x # xs, None)"
  by (simp add: readLicense_def test_conf_def)

subsection \<open>What the verifier and the loader do on every input\<close>

lemma publicKeyPem_json [simp]: "publicKeyPem (e\<lparr>json_Unmarshal := j\<rparr>) c = publicKeyPem e c"
  by (simp add: publicKeyPem_def)

lemma publicKeyPem_now_check [simp]: "publicKeyPem (e\<lparr>now_check := t\<rparr>) c = publicKeyPem e c"
  by (simp add: publicKeyPem_def)

lemma readLicense_now_check [simp]: "readLicense (e\<lparr>now_check := t\<rparr>) c = readLicense e c"
  by (simp add: readLicense_def)

lemma validateLicense_now_check [simp]:
  "validateLicense (e\<lparr>now_check := t\<rparr>) c b = validateLicense e c b"
  by (simp add: validateLicense_def Let_def
      cong: option.case_cong pubkey.case_cong if_cong)

lemma validateLicense_nil_block:
  "pem_Decode e (publicKeyPem e c) = None \<Longrightarrow> validateLicense e c license = Panics"
  by (simp add: validateLicense_def)

lemma validateLicense_key_errors:
  assumes "pem_Decode e (publicKeyPem e c) = Some der"
  shows "x509_ParsePKIXPublicKey e der = None \<Longrightarrow>
           validateLicense e c license = Returns (zero_license, Some ParsePublicKeyFailed)"
    and "x509_ParsePKIXPublicKey e der = Some OtherPublicKey \<Longrightarrow>
           validateLicense e c license = Returns (zero_license, Some PublicKeyNotRSA)"
  using assms by (simp_all add: validateLicense_def)

lemma validateLicense_error_zero:
  "validateLicense e c b = Returns (l, Some err) \<Longrightarrow> l = zero_license"
  by (auto simp: validateLicense_def Let_def
      split: option.splits pubkey.splits if_splits)

lemma expiry_and_log_error_zero:
  "expiry_and_log e evs l0 = (evs', Returns (l, Some err)) \<Longrightarrow> l = zero_license"
  by (auto simp: expiry_and_log_def split: option.splits)

lemma readAndValidateLicense_error_zero:
  "readAndValidateLicense e c = (evs, Returns (l, Some err)) \<Longrightarrow> l = zero_license"
  by (auto simp: readAndValidateLicense_def
      split: prod.splits option.splits if_splits outcome.splits
      dest: expiry_and_log_error_zero)

lemma RegisterService_on_error:
  assumes "readAndValidateLicense e c = (evs, Returns (l, Some err))"
  shows "RegisterService e c =
           (evs @ [LogError ''Failed to read Redpanda License'' err],
            Returns \<lparr>loadedLicense = Some zero_license, conf = c\<rparr>)"
  using assms readAndValidateLicense_error_zero [OF assms]
  by (simp add: RegisterService_def)

lemma RegisterService_panics_iff:
  "snd (RegisterService e c) = Panics \<longleftrightarrow>
     fst (snd (readLicense e c)) \<noteq> [] \<and> snd (snd (readLicense e c)) = None
     \<and> pem_Decode e (publicKeyPem e c) = None"
  by (auto simp: RegisterService_def readAndValidateLicense_def expiry_and_log_def
      validateLicense_def Let_def
      split: prod.splits option.splits if_splits outcome.splits pubkey.splits)

lemma length_two: "length xs = 2 \<longleftrightarrow> (\<exists>a b. xs = [a, b])"
  by (auto simp: numeral_2_eq_2 length_Suc_conv)

lemma verification_passes_iff:
  "verification_passes e c license \<longleftrightarrow>
     (\<exists>der k p s licenseData signature.
        pem_Decode e (publicKeyPem e c) = Some der
        \<and> x509_ParsePKIXPublicKey e der = Some (RSAPublicKey k)
        \<and> Split (CHR ''.'') (TrimSpace (unicode_TrimSpace e) license) = [p, s]
        \<and> DecodeString encodeStd p = Some licenseData
        \<and> DecodeString encodeStd s = Some signature
        \<and> rsa_VerifyPKCS1v15 e k (sha256_Sum256 e p) signature)"
  unfolding verification_passes_def
  by (auto split: option.splits pubkey.splits list.splits)

lemma validateLicense_verified:
  assumes "pem_Decode e (publicKeyPem e c) = Some der"
    and "x509_ParsePKIXPublicKey e der = Some (RSAPublicKey k)"
    and "Split (CHR ''.'') (TrimSpace (unicode_TrimSpace e) license) = [p, s]"
    and "DecodeString encodeStd p = Some licenseData"
    and "DecodeString encodeStd s = Some signature"
    and "rsa_VerifyPKCS1v15 e k (sha256_Sum256 e p) signature"
  shows "validateLicense e c license =
           (case json_Unmarshal e licenseData of
              None \<Rightarrow> Returns (zero_license, Some UnmarshalFailed)
            | Some rpLicense \<Rightarrow> Returns (rpLicense, None))"
  using assms by (simp add: validateLicense_def)

lemma validateLicense_unverified:
  assumes "\<not> verification_passes e c license"
  shows "validateLicense (e\<lparr>json_Unmarshal := j\<rparr>) c license = validateLicense e c license"
    and "validateLicense e c license \<noteq> Returns (l, None)"
    and "validateLicense e c license \<noteq> Returns (l, Some UnmarshalFailed)"
proof -
  let ?xs = "Split (CHR ''.'') (TrimSpace (unicode_TrimSpace e) license)"
  show "validateLicense (e\<lparr>json_Unmarshal := j\<rparr>) c license = validateLicense e c license"
  proof (cases "length ?xs = 2")
    case False
    then show ?thesis
      by (simp add: validateLicense_def split: option.split pubkey.split)
  next
    case True
    then obtain p s where "?xs = [p, s]" by (auto simp: length_two)
    with assms show ?thesis
      by (auto simp: validateLicense_def verification_passes_def
          split: option.splits pubkey.splits)
  qed
  show "validateLicense e c license \<noteq> Returns (l, None)"
  proof (cases "length ?xs = 2")
    case False
    then show ?thesis
      by (simp add: validateLicense_def split: option.split pubkey.split)
  next
    case True
    then obtain p s where "?xs = [p, s]" by (auto simp: length_two)
    with assms show ?thesis
      by (auto simp: validateLicense_def verification_passes_def
          split: option.splits pubkey.splits)
  qed
  show "validateLicense e c license \<noteq> Returns (l, Some UnmarshalFailed)"
  proof (cases "length ?xs = 2")
    case False
    then show ?thesis
      by (simp add: validateLicense_def split: option.split pubkey.split)
  next
    case True
    then obtain p s where "?xs = [p, s]" by (auto simp: length_two)
    with assms show ?thesis
      by (auto simp: validateLicense_def verification_passes_def
          split: option.splits pubkey.splits)
  qed
qed

lemma validateLicense_DecodeError_iff:
  "validateLicense e c license = Returns (l, Some err) \<Longrightarrow>
   condition_of err = DecodeError \<longleftrightarrow> err = UnmarshalFailed"
  by (auto simp: validateLicense_def Let_def
      split: option.splits pubkey.splits if_splits)

subsection \<open>The base64 decoder\<close>

lemma dropWhile_Nil_set: "dropWhile P xs = [] \<Longrightarrow> c \<in> set xs \<Longrightarrow> P c"
  by (simp add: dropWhile_eq_Nil_conv)

lemma dropWhile_Cons_set:
  "dropWhile P xs = p # rest \<Longrightarrow> c \<in> set xs \<Longrightarrow> P c \<or> c = p \<or> c \<in> set rest"
  by (metis Un_iff set_ConsD set_append set_takeWhileD takeWhile_dropWhile_id)

lemma decodeQuantum_foreign_char:
  "c \<in> set s \<Longrightarrow> decodeMap al c = None \<Longrightarrow> \<not> is_newline c \<Longrightarrow> c \<noteq> CHR ''='' \<Longrightarrow>
   decodeQuantum al dbuf s = None"
proof (induction s arbitrary: dbuf)
  case Nil
  then show ?case by simp
next
  case (Cons x xs)
  show ?case
  proof (cases "x = c")
    case True
    with Cons.prems show ?thesis by simp
  next
    case False
    with Cons.prems have mem: "c \<in> set xs" by simp
    note ih = Cons.IH [OF mem Cons.prems(2-4)]
    show ?thesis
    proof (cases "decodeMap al x")
      case (Some v)
      then show ?thesis by (simp add: ih)
    next
      case None
      have a: "dropWhile is_newline xs \<noteq> []"
        using dropWhile_Nil_set [of is_newline xs c] mem Cons.prems(3) by blast
      have b: "dropWhile is_newline xs = p # rest \<Longrightarrow> p = CHR ''='' \<Longrightarrow>
               dropWhile is_newline rest \<noteq> []" for p rest
        using dropWhile_Cons_set [of is_newline xs p rest c]
          dropWhile_Nil_set [of is_newline rest c] mem Cons.prems(3,4) by blast
      show ?thesis
        using None a b by (auto simp: ih split: list.splits)
    qed
  qed
qed

lemma std_rejects_url_chars:
  "CHR ''-'' \<in> set s \<or> CHR ''_'' \<in> set s \<Longrightarrow> DecodeString encodeStd s = None"
  unfolding DecodeString_def
  by (auto intro!: decodeQuantum_foreign_char simp: decodeMap_def encodeStd_def is_newline_def)

lemma find_index_nth:
  "distinct xs \<Longrightarrow> n < length xs \<Longrightarrow> find_index (xs ! n) xs i = Some (i + n)"
proof (induction xs arbitrary: n i)
  case Nil
  then show ?case by simp
next
  case (Cons x xs)
  show ?case
  proof (cases n)
    case 0
    then show ?thesis by simp
  next
    case (Suc m)
    with Cons.prems have "xs ! m \<noteq> x" "m < length xs" "distinct xs"
      by auto
    with Cons.IH [of m "Suc i"] Suc show ?thesis by simp
  qed
qed

lemma distinct_encodeStd: "distinct encodeStd"
  by (simp add: encodeStd_def)

lemma length_encodeStd: "length encodeStd = 64"
  by (simp add: encodeStd_def)

lemma decodeMap_encodeStd:
  "n < 64 \<Longrightarrow> decodeMap encodeStd (encodeStd ! n) = Some n"
  using find_index_nth [OF distinct_encodeStd, of n 0]
  by (simp add: decodeMap_def length_encodeStd)

lemma decodeMap_pad: "decodeMap encodeStd CHR ''='' = None"
  by (simp add: decodeMap_def encodeStd_def)

lemma sextets_join:
  fixes v :: nat
  shows "(v div 262144 mod 64) * 262144 + (v div 4096 mod 64) * 4096
         + (v div 64 mod 64) * 64 + v mod 64 = v mod 16777216"
  using mod_mult2_eq [of v 64 64] mod_mult2_eq [of v 4096 64] mod_mult2_eq [of v 262144 64]
  by simp

lemma quantum_bytes_3:
  fixes A B C :: nat
  assumes "A < 256" "B < 256" "C < 256"
  defines "v \<equiv> A * 65536 + B * 256 + C"
  shows "quantum_bytes [v div 262144 mod 64, v div 4096 mod 64, v div 64 mod 64, v mod 64] =
           [char_of A, char_of B, char_of C]"
proof -
  have lt: "v < 16777216" using assms by simp
  have j: "(v div 262144 mod 64) * 262144 + (v div 4096 mod 64) * 4096
         + (v div 64 mod 64) * 64 + v mod 64 = v"
    using sextets_join [of v] lt by simp
  have a: "v div 65536 = A" using assms by simp
  define w where "w = A * 256 + B"
  have vw: "v = w * 256 + C" by (simp add: v_def w_def)
  have "v div 256 = w" unfolding vw using assms(3) by simp
  then have b: "v div 256 mod 256 = B mod 256" by (simp add: w_def)
  have c: "v mod 256 = C mod 256" unfolding vw by simp
  show ?thesis
    by (simp add: quantum_bytes_def numeral_3_eq_3 j a char_of_eq_iff take_bit_eq_mod b c)
qed

lemma quantum_bytes_2:
  fixes A B :: nat
  assumes "A < 256" "B < 256"
  defines "v \<equiv> A * 65536 + B * 256"
  shows "quantum_bytes [v div 262144 mod 64, v div 4096 mod 64, v div 64 mod 64] =
           [char_of A, char_of B]"
proof -
  have lt: "v < 16777216" using assms by simp
  have "v = (A * 1024 + B * 4) * 64" by (simp add: v_def)
  then have z: "v mod 64 = 0" by simp
  have j: "(v div 262144 mod 64) * 262144 + (v div 4096 mod 64) * 4096
         + (v div 64 mod 64) * 64 = v"
    using sextets_join [of v] lt z by simp
  have a: "v div 65536 = A" using assms by simp
  define w where "w = A * 256 + B"
  have vw: "v = w * 256" by (simp add: v_def w_def)
  have "v div 256 = w" unfolding vw by simp
  then have b: "take_bit 8 (v div 256) = B mod 256" by (simp add: w_def take_bit_eq_mod)
  show ?thesis
    by (simp add: quantum_bytes_def numeral_2_eq_2 numeral_3_eq_3 j a char_of_eq_iff b)
qed

lemma quantum_bytes_1:
  fixes A :: nat
  assumes "A < 256"
  defines "v \<equiv> A * 65536"
  shows "quantum_bytes [v div 262144 mod 64, v div 4096 mod 64] = [char_of A]"
proof -
  have lt: "v < 16777216" using assms by simp
  have "v = (A * 1024) * 64" by (simp add: v_def)
  then have z: "v mod 64 = 0" by simp
  have "v = (A * 16) * 4096" by (simp add: v_def)
  then have "v div 64 = (A * 16) * 64" by simp
  then have z2: "v div 64 mod 64 = 0" by simp
  have j: "(v div 262144 mod 64) * 262144 + (v div 4096 mod 64) * 4096 = v"
    using sextets_join [of v] lt z z2 by simp
  have a: "v div 65536 = A" using assms by simp
  show ?thesis
    by (simp add: quantum_bytes_def numeral_2_eq_2 numeral_3_eq_3 j a)
qed

lemma decodeQuantum_encoded_quantum:
  assumes "decodeMap al x0 = Some v0" "decodeMap al x1 = Some v1"
    "decodeMap al x2 = Some v2" "decodeMap al x3 = Some v3"
  shows "decodeQuantum al [] (x0 # x1 # x2 # x3 # r) =
           (case decodeQuantum al [] r of None \<Rightarrow> None
            | Some r' \<Rightarrow> Some (quantum_bytes [v0, v1, v2, v3] @ r'))"
  using assms by (simp cong: option.case_cong)

lemma decodeQuantum_encoded_pad1:
  assumes "decodeMap al x0 = Some v0" "decodeMap al x1 = Some v1"
    "decodeMap al x2 = Some v2" "decodeMap al CHR ''='' = None"
  shows "decodeQuantum al [] [x0, x1, x2, CHR ''=''] = Some (quantum_bytes [v0, v1, v2])"
  using assms by (simp add: is_newline_def)

lemma decodeQuantum_encoded_pad2:
  assumes "decodeMap al x0 = Some v0" "decodeMap al x1 = Some v1"
    "decodeMap al CHR ''='' = None"
  shows "decodeQuantum al [] [x0, x1, CHR ''='', CHR ''=''] = Some (quantum_bytes [v0, v1])"
  using assms by (simp add: is_newline_def)

lemma DecodeString_EncodeToString:
  "DecodeString encodeStd (EncodeToString encodeStd bs) = Some bs"
  unfolding DecodeString_def
proof (induction encodeStd bs rule: EncodeToString.induct)
  case 1
  then show ?case by simp
next
  case (2 a)
  show ?case
    using quantum_bytes_1 [of "of_char a"]
    by (simp add: Let_def decodeQuantum_encoded_pad2 [OF decodeMap_encodeStd decodeMap_encodeStd decodeMap_pad]
        del: decodeQuantum.simps)
next
  case (3 a b)
  show ?case
    using quantum_bytes_2 [of "of_char a" "of_char b"]
    by (simp add: Let_def decodeQuantum_encoded_pad1 [OF decodeMap_encodeStd decodeMap_encodeStd decodeMap_encodeStd decodeMap_pad]
        del: decodeQuantum.simps)
next
  case (4 a b c rest)
  show ?case
    using quantum_bytes_3 [of "of_char a" "of_char b" "of_char c"] 4
    by (simp add: Let_def decodeQuantum_encoded_quantum [OF decodeMap_encodeStd decodeMap_encodeStd decodeMap_encodeStd decodeMap_encodeStd]
        del: decodeQuantum.simps)
qed

lemma encode_samples:
  "EncodeToString encodeStd ''ent'' = ''ZW50''"
  "EncodeToString encodeURL [CHR 0xFB, CHR 0xFF] = ''-_8=''"
  "EncodeToString encodeStd [CHR 0xFB, CHR 0xFF] = ''+/8=''"
  by (simp_all add: encodeStd_def encodeURL_def)

subsection \<open>The claims\<close>

text \<open>
  Claim C1, as the code has it. Both segments are base64-decoded before the signature is
  checked: where the key parses and the input has two segments, a payload segment that
  is not standard base64 is a malformed credential, whatever the signature segment is;
  and where both segments decode and the signature does not verify, the result is the
  signature error, which is the SignatureInvalid condition and not DecodeError. The
  decoded payload is deserialized only after the RSA verification has passed: on every
  raw input on which it has not, whatever stopped the verifier, the outcome is the same
  under every JSON decoder, so no field of the payload is read, no record is returned,
  and the error is never DecodeError. The last part says what passing the verification
  is.
\<close>

theorem validateLicense_verifies_before_unmarshal:
  "(pem_Decode e (publicKeyPem e c) = Some der
      \<and> x509_ParsePKIXPublicKey e der = Some (RSAPublicKey k)
      \<and> Split (CHR ''.'') (TrimSpace (unicode_TrimSpace e) license) = [p, s]
      \<and> DecodeString encodeStd p = None \<longrightarrow>
      validateLicense (e\<lparr>json_Unmarshal := j\<rparr>) c license =
        Returns (zero_license, Some DecodeLicenseDataFailed)
      \<and> condition_of DecodeLicenseDataFailed = MalformedCredential)
   \<and> (pem_Decode e (publicKeyPem e c) = Some der
      \<and> x509_ParsePKIXPublicKey e der = Some (RSAPublicKey k)
      \<and> Split (CHR ''.'') (TrimSpace (unicode_TrimSpace e) license) = [p, s]
      \<and> DecodeString encodeStd p = Some licenseData
      \<and> DecodeString encodeStd s = Some signature
      \<and> \<not> rsa_VerifyPKCS1v15 e k (sha256_Sum256 e p) signature \<longrightarrow>
      validateLicense (e\<lparr>json_Unmarshal := j\<rparr>) c license =
        Returns (zero_license, Some VerifySignatureFailed)
      \<and> condition_of VerifySignatureFailed = SignatureInvalid
      \<and> condition_of VerifySignatureFailed \<noteq> DecodeError)
   \<and> (\<not> verification_passes e c license \<longrightarrow>
      validateLicense (e\<lparr>json_Unmarshal := j\<rparr>) c license = validateLicense e c license
      \<and> (\<forall>l. validateLicense e c license \<noteq> Returns (l, None))
      \<and> (\<forall>l err. validateLicense e c license = Returns (l, Some err) \<longrightarrow>
            condition_of err \<noteq> DecodeError))
   \<and> (verification_passes e c license \<longleftrightarrow>
        (\<exists>der k p s licenseData signature.
           pem_Decode e (publicKeyPem e c) = Some der
           \<and> x509_ParsePKIXPublicKey e der = Some (RSAPublicKey k)
           \<and> Split (CHR ''.'') (TrimSpace (unicode_TrimSpace e) license) = [p, s]
           \<and> DecodeString encodeStd p = Some licenseData
           \<and> DecodeString encodeStd s = Some signature
           \<and> rsa_VerifyPKCS1v15 e k (sha256_Sum256 e p) signature))"
proof (intro conjI impI allI)
  assume "pem_Decode e (publicKeyPem e c) = Some der
      \<and> x509_ParsePKIXPublicKey e der = Some (RSAPublicKey k)
      \<and> Split (CHR ''.'') (TrimSpace (unicode_TrimSpace e) license) = [p, s]
      \<and> DecodeString encodeStd p = None"
  then show "validateLicense (e\<lparr>json_Unmarshal := j\<rparr>) c license =
        Returns (zero_license, Some DecodeLicenseDataFailed)"
    by (simp add: validateLicense_def)
next
  assume "pem_Decode e (publicKeyPem e c) = Some der
      \<and> x509_ParsePKIXPublicKey e der = Some (RSAPublicKey k)
      \<and> Split (CHR ''.'') (TrimSpace (unicode_TrimSpace e) license) = [p, s]
      \<and> DecodeString encodeStd p = Some licenseData
      \<and> DecodeString encodeStd s = Some signature
      \<and> \<not> rsa_VerifyPKCS1v15 e k (sha256_Sum256 e p) signature"
  then show "validateLicense (e\<lparr>json_Unmarshal := j\<rparr>) c license =
        Returns (zero_license, Some VerifySignatureFailed)"
    by (simp add: validateLicense_def)
next
  assume u: "\<not> verification_passes e c license"
  show "validateLicense (e\<lparr>json_Unmarshal := j\<rparr>) c license = validateLicense e c license"
    by (rule validateLicense_unverified(1) [OF u])
  show "validateLicense e c license \<noteq> Returns (l, None)" for l
    by (rule validateLicense_unverified(2) [OF u])
  show "condition_of err \<noteq> DecodeError"
    if r: "validateLicense e c license = Returns (l, Some err)" for l err
    using validateLicense_DecodeError_iff [OF r] validateLicense_unverified(3) [OF u, of l] r
    by auto
next
  show "verification_passes e c license \<longleftrightarrow>
        (\<exists>der k p s licenseData signature.
           pem_Decode e (publicKeyPem e c) = Some der
           \<and> x509_ParsePKIXPublicKey e der = Some (RSAPublicKey k)
           \<and> Split (CHR ''.'') (TrimSpace (unicode_TrimSpace e) license) = [p, s]
           \<and> DecodeString encodeStd p = Some licenseData
           \<and> DecodeString encodeStd s = Some signature
           \<and> rsa_VerifyPKCS1v15 e k (sha256_Sum256 e p) signature)"
    by (rule verification_passes_iff)
qed simp_all

text \<open>
  Under a JSON decoder that accepts everything: a payload that is not base64, a signature
  that does not verify, and a signature segment that is not base64.
\<close>

theorem validateLicense_verifies_before_unmarshal_witness:
  "validateLicense (test_env\<lparr>json_Unmarshal := (\<lambda>d. Some zero_license)\<rparr>) test_conf ''!.YmFk'' =
     Returns (zero_license, Some DecodeLicenseDataFailed)
   \<and> validateLicense (test_env\<lparr>json_Unmarshal := (\<lambda>d. Some zero_license)\<rparr>) test_conf
        ''ZW50.YmFk'' =
     Returns (zero_license, Some VerifySignatureFailed)
   \<and> \<not> verification_passes test_env test_conf ''ZW50.!''
   \<and> validateLicense (test_env\<lparr>json_Unmarshal := (\<lambda>d. Some zero_license)\<rparr>) test_conf ''ZW50.!'' =
     validateLicense test_env test_conf ''ZW50.!''
   \<and> validateLicense test_env test_conf ''ZW50.!'' =
     Returns (zero_license, Some DecodeSignatureFailed)"
proof -
  let ?j = "\<lambda>d::bytes. Some zero_license"
  have k: "pem_Decode test_env (publicKeyPem test_env test_conf) = Some ''rsa''"
    "x509_ParsePKIXPublicKey test_env ''rsa'' = Some (RSAPublicKey ''k'')"
    by (simp_all add: test_env_simps test_conf_simps publicKeyPem_def)
  have s1: "Split (CHR ''.'') (TrimSpace (unicode_TrimSpace test_env) ''!.YmFk'') =
              [''!'', ''YmFk'']"
    and s2: "Split (CHR ''.'') (TrimSpace (unicode_TrimSpace test_env) ''ZW50.YmFk'') =
              [''ZW50'', ''YmFk'']"
    and s3: "Split (CHR ''.'') (TrimSpace (unicode_TrimSpace test_env) ''ZW50.!'') =
              [''ZW50'', ''!'']"
    by (simp_all add: test_env_simps trim_defs)
  have nv: "\<not> rsa_VerifyPKCS1v15 test_env ''k'' (sha256_Sum256 test_env ''ZW50'') ''bad''"
    by (simp add: test_env_simps)
  have u: "\<not> verification_passes test_env test_conf ''ZW50.!''"
    by (simp add: verification_passes_def k s3 decode_samples)
  have v: "validateLicense test_env test_conf ''ZW50.!'' =
     Returns (zero_license, Some DecodeSignatureFailed)"
    by (simp add: validateLicense_def k s3 decode_samples)
  have a: "validateLicense (test_env\<lparr>json_Unmarshal := ?j\<rparr>) test_conf ''!.YmFk'' =
     Returns (zero_license, Some DecodeLicenseDataFailed)"
    using validateLicense_verifies_before_unmarshal [THEN conjunct1, of test_env test_conf "''rsa''" "''k''" "''!.YmFk''"
        "''!''" "''YmFk''" ?j]
    by (simp add: k s1 decode_samples)
  have b: "validateLicense (test_env\<lparr>json_Unmarshal := ?j\<rparr>) test_conf ''ZW50.YmFk'' =
     Returns (zero_license, Some VerifySignatureFailed)"
    using validateLicense_verifies_before_unmarshal [THEN conjunct2, THEN conjunct1, of test_env test_conf "''rsa''" "''k''"
        "''ZW50.YmFk''" "''ZW50''" "''YmFk''" "''ent''" "''bad''" ?j]
    by (simp add: k s2 decode_samples nv)
  have c: "validateLicense (test_env\<lparr>json_Unmarshal := ?j\<rparr>) test_conf ''ZW50.!'' =
     validateLicense test_env test_conf ''ZW50.!''"
    using validateLicense_verifies_before_unmarshal [THEN conjunct2, THEN conjunct2, THEN conjunct1,
        of test_env test_conf "''ZW50.!''" ?j] u
    by simp
  show ?thesis using a b c u v by simp
qed

text \<open>
  Claim C1 as stated fails: the credential \<open>!.YmFk\<close> carries a signature that does not
  verify, and the result is the payload's base64 error, not the signature error; the
  payload was decoded first.
\<close>

theorem payload_decoded_before_verification_counterexample:
  "DecodeString encodeStd ''YmFk'' = Some ''bad''
   \<and> \<not> rsa_VerifyPKCS1v15 test_env ''k'' (sha256_Sum256 test_env ''!'') ''bad''
   \<and> validateLicense test_env test_conf ''!.YmFk'' =
       Returns (zero_license, Some DecodeLicenseDataFailed)
   \<and> condition_of DecodeLicenseDataFailed \<noteq> SignatureInvalid"
  by (simp add: validate_samples decode_samples test_env_simps)

text \<open>
  Claim C2: for every configuration and every failure of the locate, verify and policy
  pipeline, \<open>RegisterService\<close> completes, logs the error and publishes the zero record.
  It does so for every error the pipeline returns (\<open>RegisterService_on_error\<close>); but with
  an inline credential and a key override that holds no PEM block, \<open>validateLicense\<close>
  dereferences the nil block, and \<open>RegisterService\<close> panics after the first debug line:
  nothing is logged at error level and no record is stored.
\<close>

theorem RegisterService_panics_on_nil_block:
  "RegisterService test_env
     (test_conf\<lparr>License := ''ZW50.b2s='', customPublicKeyPem := ''not a pem''\<rparr>) =
     ([LogDebug ''Loading explicitly defined Redpanda Enterprise license''], Panics)"
  by (simp add: RegisterService_def readAndValidateLicense_def readLicense_def
      validateLicense_def publicKeyPem_def test_conf_def test_env_simps)

text \<open>
  Claim C3, absent versus broken. With no inline credential, no explicit file path and no
  file at the default path, the load succeeds and \<open>RegisterService\<close> publishes the
  fallback record, of type \<open>-1\<close> and expiring ten years (315360000 seconds) after the
  clock reading of the load, as long as the second clock reading, of the expiry check, is
  less than ten years later. With an explicit file path that does not exist, the read
  error comes back, the load fails and the zero record is published, not the fallback.
\<close>

theorem absent_vs_broken:
  "(License c = [] \<and> LicenseFilepath c = []
      \<and> os_ReadFile e (defaultLicenseFilepath c) = Inl ErrNotExist
      \<and> now_check e < now_fallback e + ten_years \<longrightarrow>
      RegisterService e c =
        ([ReadFile (defaultLicenseFilepath c),
          LogDebug ''Successfully loaded Redpanda license''],
         Returns \<lparr>loadedLicense =
                    Some \<lparr>Version = 0, Organization = [], Type = - 1,
                          Expiry = now_fallback e + 315360000\<rparr>,
                  conf = c\<rparr>))
   \<and> (License c = [] \<and> LicenseFilepath c \<noteq> []
      \<and> os_ReadFile e (LicenseFilepath c) = Inl ErrNotExist \<longrightarrow>
      snd (readLicense e c) = ([], Some (ReadLicenseFileFailed ErrNotExist))
      \<and> snd (readAndValidateLicense e c) =
           Returns (zero_license, Some (ReadLicenseFileFailed ErrNotExist))
      \<and> snd (RegisterService e c) =
           Returns \<lparr>loadedLicense = Some zero_license, conf = c\<rparr>)"
  by (simp add: readLicense_def RegisterService_def readAndValidateLicense_def
      expiry_and_log_def CheckExpiry_def fallback_license_def ten_years_def IsNotExist_def)

text \<open>The harness with nothing configured, and with an explicit path to a file that is not there.\<close>

theorem absent_vs_broken_witness:
  "RegisterService test_env test_conf =
        ([ReadFile ''/etc/redpanda/redpanda.license'',
          LogDebug ''Successfully loaded Redpanda license''],
         Returns \<lparr>loadedLicense =
                    Some \<lparr>Version = 0, Organization = [], Type = - 1, Expiry = 315361000\<rparr>,
                  conf = test_conf\<rparr>)
   \<and> snd (RegisterService test_env (test_conf\<lparr>LicenseFilepath := ''/nope''\<rparr>)) =
        Returns \<lparr>loadedLicense = Some zero_license,
                conf = test_conf\<lparr>LicenseFilepath := ''/nope''\<rparr>\<rparr>"
  using absent_vs_broken [of test_conf test_env]
    absent_vs_broken [of "test_conf\<lparr>LicenseFilepath := ''/nope''\<rparr>" test_env]
  by (simp add: test_conf_simps test_env_simps test_env_files defaultLicenseFilepath_def
      ten_years_def)

text \<open>
  Claim C4, the priority of the credential sources. Where the inline credential is not
  empty, \<open>readLicense\<close> returns its bytes as they are, and its trace holds one debug line
  and no file read, whatever the file system holds. Where it is empty and the explicit
  path is not, the only file read is that of the explicit path, and the result is what
  that read gives; the default path is not read.
\<close>

theorem readLicense_source_priority:
  "(License c \<noteq> [] \<longrightarrow>
      readLicense e c =
        ([LogDebug ''Loading explicitly defined Redpanda Enterprise license''],
         License c, None))
   \<and> (License c = [] \<and> LicenseFilepath c \<noteq> [] \<longrightarrow>
      fst (readLicense e c) =
        [LogDebug ''Loading Redpanda Enterprise license from explicit file path'',
         ReadFile (LicenseFilepath c)]
      \<and> snd (readLicense e c) =
        (case os_ReadFile e (LicenseFilepath c) of
           Inl err \<Rightarrow> ([], Some (ReadLicenseFileFailed err))
         | Inr contents \<Rightarrow> (contents, None)))"
  by (simp add: readLicense_def split: sum.split)

text \<open>All three sources configured; then the two paths only, the default one unreadable.\<close>

theorem readLicense_source_priority_witness:
  "readLicense test_env
      (test_conf\<lparr>License := ''YmFk.b2s='', LicenseFilepath := ''/root/license'',
                 customDefaultLicenseFilepath := ''/nope''\<rparr>) =
        ([LogDebug ''Loading explicitly defined Redpanda Enterprise license''],
         ''YmFk.b2s='', None)
   \<and> readLicense test_env
      (test_conf\<lparr>LicenseFilepath := ''/etc/license'',
                 customDefaultLicenseFilepath := ''/root/license''\<rparr>) =
        ([LogDebug ''Loading Redpanda Enterprise license from explicit file path'',
          ReadFile ''/etc/license''], ''ZW50.b2s='', None)"
  using readLicense_source_priority
      [of "test_conf\<lparr>License := ''YmFk.b2s='', LicenseFilepath := ''/root/license'',
                 customDefaultLicenseFilepath := ''/nope''\<rparr>" test_env]
    readLicense_source_priority
      [of "test_conf\<lparr>LicenseFilepath := ''/etc/license'',
                 customDefaultLicenseFilepath := ''/root/license''\<rparr>" test_env]
  by (simp add: test_conf_simps test_env_files prod_eq_iff)

text \<open>
  Claim C5: a public key with no PEM block, with a malformed one, or one that is not an
  RSA key gives a key-parse error and no crash. The last two cases do
  (\<open>validateLicense_key_errors\<close>); where \<open>pem.Decode\<close> finds no block,
  \<open>validateLicense\<close> reads \<open>block.Bytes\<close> of a nil block and panics
  (\<open>validateLicense_nil_block\<close>), here on the key override \<open>not a pem\<close>.
\<close>

theorem validateLicense_panics_on_nil_block:
  "validateLicense test_env (test_conf\<lparr>customPublicKeyPem := ''not a pem''\<rparr>) ''ZW50.b2s='' =
     Panics"
  by (simp add: validateLicense_def publicKeyPem_def test_conf_def test_env_simps)

text \<open>
  Claim C6, trial rejection. Whenever the credential that was read verifies and decodes
  to a record of type 0, whatever its organization and expiry, the load fails with the
  trial error (the TrialsUnsupported condition) and \<open>RegisterService\<close> logs it and
  publishes the zero record, not the decoded one.
\<close>

theorem trial_rejected:
  assumes "readLicense e c = (evs, licenseBytes, None)"
    and "licenseBytes \<noteq> []"
    and "validateLicense e c licenseBytes = Returns (l, None)"
    and "Type l = 0"
  shows "readAndValidateLicense e c = (evs, Returns (zero_license, Some TrialLicense))
         \<and> condition_of TrialLicense = TrialsUnsupported
         \<and> RegisterService e c =
             (evs @ [LogError ''Failed to read Redpanda License'' TrialLicense],
              Returns \<lparr>loadedLicense = Some zero_license, conf = c\<rparr>)"
  using assms by (simp add: readAndValidateLicense_def RegisterService_def)

text \<open>An inline trial credential of the organization \<open>acme\<close>.\<close>

theorem trial_rejected_witness:
  "RegisterService test_env (test_conf\<lparr>License := ''dHJpYWw=.b2s=''\<rparr>) =
     ([LogDebug ''Loading explicitly defined Redpanda Enterprise license'',
       LogError ''Failed to read Redpanda License'' TrialLicense],
      Returns \<lparr>loadedLicense = Some zero_license,
              conf = test_conf\<lparr>License := ''dHJpYWw=.b2s=''\<rparr>\<rparr>)"
proof -
  let ?c = "test_conf\<lparr>License := ''dHJpYWw=.b2s=''\<rparr>"
  have v: "validateLicense test_env ?c ''dHJpYWw=.b2s='' =
     Returns (\<lparr>Version = 1, Organization = ''acme'', Type = 0, Expiry = 500\<rparr>, None)"
    by (simp add: validateLicense_def publicKeyPem_def test_env_simps test_env_json
      test_conf_simps trim_defs decode_samples)
  show ?thesis
    using trial_rejected [OF read_samples _ v] by simp
qed

text \<open>
  Claim C7, the expiry boundary. \<open>CheckExpiry\<close> fails, with the Expired condition,
  exactly when the expiry is at or before the clock reading, and passes exactly when it
  is later. A verified record that is not a trial and fails the check makes the load fail:
  the zero record is published and the error logged. One that passes is returned and
  published as it is.
\<close>

theorem expiry_boundary:
  assumes "readLicense e c = (evs, licenseBytes, None)"
    and "licenseBytes \<noteq> []"
    and "validateLicense e c licenseBytes = Returns (l, None)"
    and "Type l \<noteq> 0"
  shows "(CheckExpiry e l = Some LicenseExpired \<longleftrightarrow> Expiry l \<le> now_check e)
         \<and> (CheckExpiry e l = None \<longleftrightarrow> now_check e < Expiry l)
         \<and> condition_of LicenseExpired = Expired
         \<and> (Expiry l \<le> now_check e \<longrightarrow>
              readAndValidateLicense e c = (evs, Returns (zero_license, Some LicenseExpired))
              \<and> RegisterService e c =
                  (evs @ [LogError ''Failed to read Redpanda License'' LicenseExpired],
                   Returns \<lparr>loadedLicense = Some zero_license, conf = c\<rparr>))
         \<and> (now_check e < Expiry l \<longrightarrow>
              readAndValidateLicense e c =
                (evs @ [LogDebug ''Successfully loaded Redpanda license''], Returns (l, None))
              \<and> RegisterService e c =
                  (evs @ [LogDebug ''Successfully loaded Redpanda license''],
                   Returns \<lparr>loadedLicense = Some l, conf = c\<rparr>))"
  using assms
  by (simp add: readAndValidateLicense_def RegisterService_def expiry_and_log_def
      CheckExpiry_def)

text \<open>A record that expires at second 1000, loaded at second 1000 and at second 999.\<close>

theorem expiry_boundary_witness:
  "RegisterService test_env (test_conf\<lparr>License := ''b2xk.b2s=''\<rparr>) =
     ([LogDebug ''Loading explicitly defined Redpanda Enterprise license'',
       LogError ''Failed to read Redpanda License'' LicenseExpired],
      Returns \<lparr>loadedLicense = Some zero_license,
              conf = test_conf\<lparr>License := ''b2xk.b2s=''\<rparr>\<rparr>)
   \<and> RegisterService (test_env\<lparr>now_check := 999\<rparr>) (test_conf\<lparr>License := ''b2xk.b2s=''\<rparr>) =
     ([LogDebug ''Loading explicitly defined Redpanda Enterprise license'',
       LogDebug ''Successfully loaded Redpanda license''],
      Returns \<lparr>loadedLicense =
                Some \<lparr>Version = 1, Organization = ''acme'', Type = 2, Expiry = 1000\<rparr>,
              conf = test_conf\<lparr>License := ''b2xk.b2s=''\<rparr>\<rparr>)"
proof -
  let ?c = "test_conf\<lparr>License := ''b2xk.b2s=''\<rparr>"
  let ?l = "\<lparr>Version = 1, Organization = ''acme'', Type = 2, Expiry = 1000\<rparr>"
  have v: "validateLicense test_env ?c ''b2xk.b2s='' = Returns (?l, None)"
    by (simp add: validateLicense_def publicKeyPem_def test_env_simps test_env_json
      test_conf_simps trim_defs decode_samples)
  have r: "readLicense test_env ?c =
     ([LogDebug ''Loading explicitly defined Redpanda Enterprise license''],
      ''b2xk.b2s='', None)"
    by (simp add: readLicense_def test_conf_def)
  have v': "validateLicense (test_env\<lparr>now_check := 999\<rparr>) ?c ''b2xk.b2s='' = Returns (?l, None)"
    using v by simp
  have r': "readLicense (test_env\<lparr>now_check := 999\<rparr>) ?c =
     ([LogDebug ''Loading explicitly defined Redpanda Enterprise license''],
      ''b2xk.b2s='', None)"
    using r by simp
  show ?thesis
    using expiry_boundary [OF r _ v] expiry_boundary [OF r' _ v']
    by (simp add: test_env_simps)
qed

text \<open>
  Claim C8, as the code has it. The verifier decodes both segments with the standard
  encoding only. For every input whose key parses and that splits into two segments: a
  payload segment that is the standard encoding of some bytes decodes to these bytes,
  and the verifier does not fail with the payload's base64 error; a payload segment that
  holds one of the two characters of the URL-safe alphabet, \<open>-\<close> or \<open>_\<close>, is rejected
  with that error, which is a malformed credential.
\<close>

theorem payload_standard_alphabet_only:
  assumes "pem_Decode e (publicKeyPem e c) = Some der"
    and "x509_ParsePKIXPublicKey e der = Some (RSAPublicKey k)"
    and "Split (CHR ''.'') (TrimSpace (unicode_TrimSpace e) license) = [p, s]"
  shows "(p = EncodeToString encodeStd d \<longrightarrow>
            DecodeString encodeStd p = Some d
            \<and> validateLicense e c license \<noteq> Returns (zero_license, Some DecodeLicenseDataFailed))
         \<and> (CHR ''-'' \<in> set p \<or> CHR ''_'' \<in> set p \<longrightarrow>
            validateLicense e c license = Returns (zero_license, Some DecodeLicenseDataFailed)
            \<and> condition_of DecodeLicenseDataFailed = MalformedCredential)"
proof (intro conjI impI)
  assume p: "p = EncodeToString encodeStd d"
  then show dec: "DecodeString encodeStd p = Some d"
    by (simp add: DecodeString_EncodeToString)
  show "validateLicense e c license \<noteq> Returns (zero_license, Some DecodeLicenseDataFailed)"
    using assms dec
    by (simp add: validateLicense_def split: option.split)
next
  assume "CHR ''-'' \<in> set p \<or> CHR ''_'' \<in> set p"
  then have "DecodeString encodeStd p = None"
    by (rule std_rejects_url_chars)
  then show "validateLicense e c license = Returns (zero_license, Some DecodeLicenseDataFailed)"
    using assms by (simp add: validateLicense_def)
next
  show "condition_of DecodeLicenseDataFailed = MalformedCredential" by simp
qed

text \<open>The payload \<open>ZW50\<close>, and the payload \<open>-_8=\<close>.\<close>

theorem payload_standard_alphabet_only_witness:
  "validateLicense test_env test_conf ''ZW50.b2s='' \<noteq>
     Returns (zero_license, Some DecodeLicenseDataFailed)
   \<and> validateLicense test_env test_conf ''-_8=.b2s='' =
     Returns (zero_license, Some DecodeLicenseDataFailed)"
proof -
  have k: "pem_Decode test_env (publicKeyPem test_env test_conf) = Some ''rsa''"
    "x509_ParsePKIXPublicKey test_env ''rsa'' = Some (RSAPublicKey ''k'')"
    by (simp_all add: test_env_simps test_conf_simps publicKeyPem_def)
  have s1: "Split (CHR ''.'') (TrimSpace (unicode_TrimSpace test_env) ''ZW50.b2s='') =
              [''ZW50'', ''b2s='']"
    and s2: "Split (CHR ''.'') (TrimSpace (unicode_TrimSpace test_env) ''-_8=.b2s='') =
              [''-_8='', ''b2s='']"
    by (simp_all add: test_env_simps trim_defs)
  show ?thesis
    using payload_standard_alphabet_only [OF k s1, of "''ent''"]
      payload_standard_alphabet_only [OF k s2]
    by (simp add: encode_samples del: EncodeToString.simps)
qed

text \<open>
  Claim C8 as stated fails: \<open>-_8=\<close> is the URL-safe encoding of two bytes and decodes
  in that alphabet, but the verifier rejects it as a malformed credential.
\<close>

theorem url_alphabet_payload_counterexample:
  "EncodeToString encodeURL [CHR 0xFB, CHR 0xFF] = ''-_8=''
   \<and> DecodeString encodeURL ''-_8='' = Some [CHR 0xFB, CHR 0xFF]
   \<and> DecodeString encodeStd ''-_8='' = None
   \<and> validateLicense test_env test_conf ''-_8=.b2s='' =
       Returns (zero_license, Some DecodeLicenseDataFailed)
   \<and> condition_of DecodeLicenseDataFailed = MalformedCredential"
  by (simp add: encode_samples decode_samples validate_samples del: EncodeToString.simps)

text \<open>
  Claim C9, the trial check comes before the expiry check. A verified record of type 0
  whose expiry has passed fails with the trial error, not with the expiry error, and the
  outcome of the load is the same at every reading of the clock: the expiry check is
  not reached.
\<close>

theorem trial_check_precedes_expiry:
  assumes "readLicense e c = (evs, licenseBytes, None)"
    and "licenseBytes \<noteq> []"
    and "validateLicense e c licenseBytes = Returns (l, None)"
    and "Type l = 0"
    and "Expiry l \<le> now_check e"
  shows "readAndValidateLicense e c = (evs, Returns (zero_license, Some TrialLicense))
         \<and> condition_of TrialLicense \<noteq> Expired
         \<and> readAndValidateLicense (e\<lparr>now_check := t\<rparr>) c = readAndValidateLicense e c"
  using assms by (simp add: readAndValidateLicense_def)

text \<open>The trial credential of the harness expired at second 500; the clock reads 1000, then 0.\<close>

theorem trial_check_precedes_expiry_witness:
  "readAndValidateLicense test_env (test_conf\<lparr>License := ''dHJpYWw=.b2s=''\<rparr>) =
     ([LogDebug ''Loading explicitly defined Redpanda Enterprise license''],
      Returns (zero_license, Some TrialLicense))
   \<and> readAndValidateLicense (test_env\<lparr>now_check := 0\<rparr>) (test_conf\<lparr>License := ''dHJpYWw=.b2s=''\<rparr>) =
     readAndValidateLicense test_env (test_conf\<lparr>License := ''dHJpYWw=.b2s=''\<rparr>)"
proof -
  let ?c = "test_conf\<lparr>License := ''dHJpYWw=.b2s=''\<rparr>"
  let ?l = "\<lparr>Version = 1, Organization = ''acme'', Type = 0, Expiry = 500\<rparr>"
  have v: "validateLicense test_env ?c ''dHJpYWw=.b2s='' = Returns (?l, None)"
    by (simp add: validateLicense_def publicKeyPem_def test_env_simps test_env_json
      test_conf_simps trim_defs decode_samples)
  have x: "Expiry ?l \<le> now_check test_env"
    by (simp add: test_env_simps)
  show ?thesis
    using trial_check_precedes_expiry [OF read_samples _ v _ x, of 0] by simp
qed

text \<open>
  Claim C10, errors of the default path other than not-found are fatal. With no inline
  credential and no explicit path, a read of the default path that fails with anything
  but file-not-found makes \<open>readLicense\<close> return the error; the load fails and
  \<open>RegisterService\<close> publishes the zero record, whose type is not \<open>-1\<close>.
\<close>

theorem default_path_other_errors_fatal:
  assumes "License c = []" and "LicenseFilepath c = []"
    and "os_ReadFile e (defaultLicenseFilepath c) = Inl err"
    and "\<not> IsNotExist err"
  shows "readLicense e c =
           ([ReadFile (defaultLicenseFilepath c)], [], Some (ReadDefaultPathFailed err))
         \<and> RegisterService e c =
           ([ReadFile (defaultLicenseFilepath c),
             LogError ''Failed to read Redpanda License'' (ReadDefaultPathFailed err)],
            Returns \<lparr>loadedLicense = Some zero_license, conf = c\<rparr>)
         \<and> Type zero_license \<noteq> - 1"
  using assms
  by (simp add: readLicense_def RegisterService_def readAndValidateLicense_def zero_license_def)

text \<open>The default path overridden to the file the harness may not read.\<close>

theorem default_path_other_errors_fatal_witness:
  "RegisterService test_env (test_conf\<lparr>customDefaultLicenseFilepath := ''/root/license''\<rparr>) =
     ([ReadFile ''/root/license'',
       LogError ''Failed to read Redpanda License'' (ReadDefaultPathFailed ErrPermission)],
      Returns \<lparr>loadedLicense = Some zero_license,
              conf = test_conf\<lparr>customDefaultLicenseFilepath := ''/root/license''\<rparr>\<rparr>)"
  using default_path_other_errors_fatal
    [of "test_conf\<lparr>customDefaultLicenseFilepath := ''/root/license''\<rparr>" test_env ErrPermission]
  by (simp add: test_conf_simps test_env_files defaultLicenseFilepath_def IsNotExist_def)

end
